theory Spec2Isabelle
  imports Complex_Main "HOL-Library.Sublist" "HOL-Library.Char_ord" "HOL-Library.List_Lexorder"
begin

section \<open>Values of a parsed JSON request body\<close>

text \<open>
  The route handlers destructure \<^verbatim>\<open>req.body\<close>, so a body field is any JavaScript value
  that a JSON parser can produce, or \<^verbatim>\<open>undefined\<close> when the field is missing.
\<close>

datatype js_value =
    JUndefined
  | JNull
  | JBool bool
  | JNum real
  | JStr string
  | JArr "js_value list"
  | JObj "(string \<times> js_value) list"

datatype js_type = TUndefined | TObject | TBoolean | TNumber | TString

text \<open>JavaScript truthiness: \<^verbatim>\<open>!v\<close> is \<open>\<not> truthy v\<close>.\<close>

fun truthy :: "js_value \<Rightarrow> bool" where
  "truthy JUndefined = False"
| "truthy JNull = False"
| "truthy (JBool b) = b"
| "truthy (JNum r) = (r \<noteq> 0)"
| "truthy (JStr s) = (s \<noteq> [])"
| "truthy (JArr _) = True"
| "truthy (JObj _) = True"

fun typeof :: "js_value \<Rightarrow> js_type" where
  "typeof JUndefined = TUndefined"
| "typeof JNull = TObject"
| "typeof (JBool _) = TBoolean"
| "typeof (JNum _) = TNumber"
| "typeof (JStr _) = TString"
| "typeof (JArr _) = TObject"
| "typeof (JObj _) = TObject"

section \<open>The persistent store\<close>

text \<open>
  Rows of the two tables. The column \<^verbatim>\<open>id\<close> is named \<open>msg_id\<close> and \<open>conv_id\<close> here
  (\<open>id\<close> is the identity function of HOL), and the conversation's \<^verbatim>\<open>created_at\<close> is
  \<open>conv_created_at\<close>. A title is stored as it was bound: a text, a number when the
  request carried a number, or \<^verbatim>\<open>NULL\<close>. The schema is not among the sources: a table is the list of
  its rows in insertion order, and where a property needs an identifier to be unique, it
  assumes that the \<^verbatim>\<open>uuidv4()\<close> drawn is not in the table yet.
\<close>

datatype role = User | Assistant

datatype status = Sending | Sent | Failed

datatype sql_value = SqlText string | SqlNum real | SqlNull

record conversation =
  conv_id :: string
  title :: sql_value
  conv_created_at :: string
  updated_at :: string

record message =
  msg_id :: string
  conversation_id :: string
  role :: role
  content :: string
  status :: status
  error_message :: "string option"
  created_at :: string

record db =
  tbl_conversations :: "conversation list"
  tbl_messages :: "message list"

section \<open>Effects of a request handler\<close>

text \<open>
  A handler run is the sequence of its effects, in program order: statements run against
  the store (better-sqlite3 is synchronous, so a statement has completed when the next
  effect starts), events pushed on the SSE session, and the HTTP response.
\<close>

datatype sse_event = Chunk string | Done string string | Error string

datatype body =
    ErrorBody string
  | ConversationBody conversation
  | MessagesBody "message list"
  | NoBody

datatype effect =
    InsertConversation conversation
  | InsertMessage message
  | UpdateConversationTime string string
  | UpdateMessageFailed string string
  | UpdateMessageSent string string
  | CreateSession
  | CallSource string "(role \<times> string) list"
  | Push sse_event
  | Respond nat body
  | End

text \<open>
  The statements of the routes:
  \<^verbatim>\<open>INSERT INTO conversations ...\<close>, \<^verbatim>\<open>INSERT INTO messages ...\<close>,
  \<^verbatim>\<open>UPDATE conversations SET updated_at = ? WHERE id = ?\<close>,
  \<^verbatim>\<open>UPDATE messages SET status = ?, error_message = ? WHERE id = ?\<close> (with status failed) and
  \<^verbatim>\<open>UPDATE messages SET content = ?, status = ? WHERE id = ?\<close> (with status sent).
  Every other effect leaves the store as it is.
\<close>

fun run_sql :: "effect \<Rightarrow> db \<Rightarrow> db" where
  "run_sql (InsertConversation c) d = d\<lparr>tbl_conversations := tbl_conversations d @ [c]\<rparr>"
| "run_sql (InsertMessage m) d = d\<lparr>tbl_messages := tbl_messages d @ [m]\<rparr>"
| "run_sql (UpdateConversationTime t i) d =
     d\<lparr>tbl_conversations :=
         map (\<lambda>c. if conv_id c = i then c\<lparr>updated_at := t\<rparr> else c) (tbl_conversations d)\<rparr>"
| "run_sql (UpdateMessageFailed e i) d =
     d\<lparr>tbl_messages :=
         map (\<lambda>m. if msg_id m = i then m\<lparr>status := Failed, error_message := Some e\<rparr> else m)
           (tbl_messages d)\<rparr>"
| "run_sql (UpdateMessageSent t i) d =
     d\<lparr>tbl_messages :=
         map (\<lambda>m. if msg_id m = i then m\<lparr>content := t, status := Sent\<rparr> else m)
           (tbl_messages d)\<rparr>"
| "run_sql _ d = d"

definition store_after :: "effect list \<Rightarrow> db \<Rightarrow> db" where
  "store_after effs d = fold run_sql effs d"

text \<open>\<^verbatim>\<open>SELECT * FROM conversations WHERE id = ?\<close> with \<^verbatim>\<open>.get(id)\<close>: the first row, if any.\<close>

definition get_conversation :: "db \<Rightarrow> string \<Rightarrow> conversation option" where
  "get_conversation d i = find (\<lambda>c. conv_id c = i) (tbl_conversations d)"

definition get_message :: "db \<Rightarrow> string \<Rightarrow> message option" where
  "get_message d i = find (\<lambda>m. msg_id m = i) (tbl_messages d)"

text \<open>The events pushed on the session, their chunk payloads, and the \<open>done\<close> events.\<close>

fun pushed :: "effect list \<Rightarrow> sse_event list" where
  "pushed [] = []"
| "pushed (Push e # effs) = e # pushed effs"
| "pushed (_ # effs) = pushed effs"

fun chunk_payloads :: "sse_event list \<Rightarrow> string list" where
  "chunk_payloads [] = []"
| "chunk_payloads (Chunk c # evs) = c # chunk_payloads evs"
| "chunk_payloads (_ # evs) = chunk_payloads evs"

fun is_done :: "sse_event \<Rightarrow> bool" where
  "is_done (Done _ _) = True"
| "is_done _ = False"

section \<open>The Completion Source\<close>

text \<open>
  What one run of the Completion Source does: the fragments it yields, in order, and how
  the run ends. \<open>Cancelled\<close> is the run stopped by the cancellation handle (the client
  disconnected), after which no callback is invoked.
\<close>

datatype outcome = Completes | Fails string | Cancelled

record source_run =
  fragments :: "string list"
  outcome :: outcome

text \<open>
  The progress callback \<open>onChunk\<close> invoked on each fragment in turn; \<open>s\<close> is the
  state the callback closes over.
\<close>

fun relay :: "('s \<Rightarrow> string \<Rightarrow> 's \<times> effect list) \<Rightarrow> 's \<Rightarrow> string list \<Rightarrow> 's \<times> effect list" where
  "relay onChunk s [] = (s, [])"
| "relay onChunk s (f # fs) =
     (let (s1, e1) = onChunk s f; (s2, e2) = relay onChunk s1 fs in (s2, e1 @ e2))"

text \<open>
  Modelled from the spec: \<^verbatim>\<open>createAIStream\<close> of \<^verbatim>\<open>openai-stream.js\<close> is not among the
  sources. The Completion Source "produces a sequence of text fragments asynchronously
  and signals completion or failure", a fragment being "one incremental piece of
  generated text delivered before the full response is known". So the progress callback
  is invoked once per fragment, in order, and then the completion callback with the full
  text, which is the fragments put together, or the failure callback with the error's
  message; a cancelled run invokes neither. The callbacks are those the route passes in.
\<close>

definition createAIStream ::
  "source_run \<Rightarrow> ('s \<Rightarrow> string \<Rightarrow> 's \<times> effect list) \<Rightarrow> (string \<Rightarrow> effect list) \<Rightarrow>
     (string \<Rightarrow> effect list) \<Rightarrow> 's \<Rightarrow> effect list" where
  "createAIStream src onChunk onError onDone s =
     (let (s', effs) = relay onChunk s (fragments src) in
      effs @ (case outcome src of
                Completes \<Rightarrow> onDone (concat (fragments src))
              | Fails e \<Rightarrow> onError e
              | Cancelled \<Rightarrow> []))"

section \<open>The routes\<close>

text \<open>
  What a handler takes from its surroundings: the two identifiers drawn with
  \<^verbatim>\<open>uuidv4()\<close>, the time \<^verbatim>\<open>new Date().toISOString()\<close>, and whether
  \<^verbatim>\<open>createSession(req, res)\<close> resolves (when it rejects, the \<^verbatim>\<open>catch\<close> answers 500).
\<close>

record env =
  userMessageId :: string
  assistantMessageId :: string
  now :: string
  session_opens :: bool

record request =
  params_id :: string
  body_content :: js_value

subsection \<open>POST /:id/messages\<close>

text \<open>The three callbacks handed to \<^verbatim>\<open>createAIStream\<close>.\<close>

definition onChunk :: "string \<Rightarrow> string \<Rightarrow> string \<times> effect list" where
  "onChunk fullResponse chunk = (fullResponse @ chunk, [Push (Chunk chunk)])"

definition onError :: "string \<Rightarrow> string \<Rightarrow> effect list" where
  "onError aid err = [UpdateMessageFailed err aid, Push (Error err), End]"

definition onDone :: "string \<Rightarrow> string \<Rightarrow> effect list" where
  "onDone aid fullText = [UpdateMessageSent fullText aid, Push (Done aid fullText), End]"

text \<open>
  \<^verbatim>\<open>SELECT * FROM messages WHERE conversation_id = ? AND status = 'sent' ORDER BY created_at ASC\<close>,
  mapped to the role and content of each row. Timestamps are ISO strings, compared as
  texts; rows with equal timestamps keep their table order.
\<close>

definition conversationHistory :: "db \<Rightarrow> string \<Rightarrow> (role \<times> string) list" where
  "conversationHistory d i =
     map (\<lambda>m. (role m, content m))
       (sort_key created_at
          (filter (\<lambda>m. conversation_id m = i \<and> status m = Sent) (tbl_messages d)))"

definition stream_effects :: "env \<Rightarrow> source_run \<Rightarrow> db \<Rightarrow> string \<Rightarrow> string \<Rightarrow> effect list" where
  "stream_effects e src d i text =
     [InsertMessage \<lparr>msg_id = userMessageId e, conversation_id = i, role = User,
        content = text, status = Sent, error_message = None, created_at = now e\<rparr>,
      InsertMessage \<lparr>msg_id = assistantMessageId e, conversation_id = i, role = Assistant,
        content = [], status = Sending, error_message = None, created_at = now e\<rparr>,
      UpdateConversationTime (now e) i] @
     (if session_opens e
      then CreateSession # CallSource text (conversationHistory d i) #
             createAIStream src onChunk (onError (assistantMessageId e))
               (onDone (assistantMessageId e)) []
      else [Respond 500 (ErrorBody ''Failed to process message'')])"

definition post_message :: "env \<Rightarrow> source_run \<Rightarrow> db \<Rightarrow> request \<Rightarrow> effect list" where
  "post_message e src d req =
     (if \<not> truthy (body_content req) \<or> typeof (body_content req) \<noteq> TString
      then [Respond 400 (ErrorBody ''Message content is required'')]
      else case get_conversation d (params_id req) of
             None \<Rightarrow> [Respond 404 (ErrorBody ''Conversation not found'')]
           | Some conversation \<Rightarrow>
               (case body_content req of
                  JStr text \<Rightarrow> stream_effects e src d (params_id req) text
                | _ \<Rightarrow> []))"

subsection \<open>GET /:id/messages\<close>


subsection \<open>POST /\<close>

text \<open>
  How better-sqlite3 binds the title argument of the INSERT, whose four placeholders take
  the identifier, the title and the time twice. A string, a number or \<^verbatim>\<open>null\<close> is
  bound as it is. An array argument is spread into bound parameters, so an array of one
  bindable value binds that value, and an array of any other length leaves too few or too
  many parameters. An object is taken for named parameters, of which the statement has
  none, so a parameter is missing. A boolean cannot be bound. In each failing case the
  statement throws and the route's \<^verbatim>\<open>catch\<close> answers 500.
\<close>

fun bind_value :: "js_value \<Rightarrow> sql_value option" where
  "bind_value (JStr s) = Some (SqlText s)"
| "bind_value (JNum r) = Some (SqlNum r)"
| "bind_value JNull = Some SqlNull"
| "bind_value _ = None"

fun bind_param :: "js_value \<Rightarrow> sql_value option" where
  "bind_param (JArr [v]) = bind_value v"
| "bind_param (JArr _) = None"
| "bind_param (JObj _) = None"
| "bind_param v = bind_value v"

definition post_conversation :: "string \<Rightarrow> string \<Rightarrow> db \<Rightarrow> js_value \<Rightarrow> effect list" where
  "post_conversation i t d ttl =
     (case bind_param (if truthy ttl then ttl else JStr ''New Chat'') of
        None \<Rightarrow> [Respond 500 (ErrorBody ''Failed to create conversation'')]
      | Some v \<Rightarrow>
          (let ins = InsertConversation
                 \<lparr>conv_id = i, title = v, conv_created_at = t, updated_at = t\<rparr>
           in ins # [Respond 201
                       (case get_conversation (run_sql ins d) i of
                          Some conversation \<Rightarrow> ConversationBody conversation
                        | None \<Rightarrow> NoBody)]))"


section \<open>The store at the moment of a push\<close>

text \<open>
  \<open>snapshots effs d\<close> pairs every event a run pushes with the store as it is when the
  event is pushed: the store a reader would see who queries it on receiving the event.
\<close>

fun snapshots :: "effect list \<Rightarrow> db \<Rightarrow> (sse_event \<times> db) list" where
  "snapshots [] d = []"
| "snapshots (Push ev # effs) d = (ev, d) # snapshots effs d"
| "snapshots (e # effs) d = snapshots effs (run_sql e d)"

section \<open>Status transitions in the store\<close>

text \<open>
  A run moves the store through one state per effect. \<open>transitions_ok ok effs d i\<close> says
  that at each of these moves the row with identifier \<open>i\<close> changes in a way \<open>ok\<close>
  allows: \<open>ok\<close> compares the row before a statement (\<open>None\<close> when there is none) with
  the row after it.
\<close>

fun transitions_ok ::
  "(message option \<Rightarrow> message option \<Rightarrow> bool) \<Rightarrow> effect list \<Rightarrow> db \<Rightarrow> string \<Rightarrow> bool" where
  "transitions_ok ok [] d i = True"
| "transitions_ok ok (e # es) d i =
     (ok (get_message d i) (get_message (run_sql e d) i) \<and> transitions_ok ok es (run_sql e d) i)"

text \<open>
  \<open>sending_first\<close>: a row is created as \<open>sending\<close>, and its status then stays or
  moves from \<open>sending\<close> to \<open>sent\<close> or \<open>failed\<close>.
\<close>

fun sending_first :: "message option \<Rightarrow> message option \<Rightarrow> bool" where
  "sending_first None None = True"
| "sending_first None (Some m) = (status m = Sending)"
| "sending_first (Some m) None = False"
| "sending_first (Some m) (Some m') =
     (status m' = status m \<or> (status m = Sending \<and> (status m' = Sent \<or> status m' = Failed)))"

text \<open>
  \<open>placeholder_first\<close>: an assistant row is created as \<open>sending\<close> and a user row as
  \<open>sent\<close>; afterwards only an assistant row in \<open>sending\<close> changes its status, to
  \<open>sent\<close> or \<open>failed\<close>.
\<close>

fun placeholder_first :: "message option \<Rightarrow> message option \<Rightarrow> bool" where
  "placeholder_first None None = True"
| "placeholder_first None (Some m) =
     (case role m of Assistant \<Rightarrow> status m = Sending | User \<Rightarrow> status m = Sent)"
| "placeholder_first (Some m) None = False"
| "placeholder_first (Some m) (Some m') =
     (status m' = status m \<or>
      (role m = Assistant \<and> status m = Sending \<and> (status m' = Sent \<or> status m' = Failed)))"

section \<open>The conversation view (ChatView)\<close>

text \<open>\<^verbatim>\<open>String(Date.now())\<close>: a natural number in decimal.\<close>

fun show_nat :: "nat \<Rightarrow> string" where
  "show_nat n =
     (if n < 10 then [''0123456789'' ! n]
      else show_nat (n div 10) @ [''0123456789'' ! (n mod 10)])"

declare show_nat.simps [simp del]

text \<open>\<^verbatim>\<open>s.replace(pat, rep)\<close> with a string pattern: the first occurrence is replaced.\<close>

fun js_replace :: "string \<Rightarrow> string \<Rightarrow> string \<Rightarrow> string" where
  "js_replace pat rep [] = (if pat = [] then rep else [])"
| "js_replace pat rep (c # cs) =
     (if prefix pat (c # cs) then rep @ drop (length pat) (c # cs)
      else c # js_replace pat rep cs)"

text \<open>
  A stream opened with \<^verbatim>\<open>subscribeToSSE\<close>: the endpoint, the content sent in the body,
  and what its callbacks close over, the temporary message's identifier and the
  conversation's.
\<close>

record subscription =
  endpoint :: string
  sent_content :: string
  temp_id :: string
  sub_conversation :: string

text \<open>
  The component's state: \<open>cid\<close> is the \<^verbatim>\<open>id\<close> of \<^verbatim>\<open>useParams\<close>, \<open>cleanupRef\<close> holds
  the stream whose cancel function is in \<^verbatim>\<open>cleanupRef.current\<close>, and \<open>opened\<close>
  lists the streams opened so far.
\<close>

record view =
  cid :: "string option"
  messages :: "message list"
  error :: "string option"
  streamingContent :: string
  isStreaming :: bool
  cleanupRef :: "subscription option"
  opened :: "subscription list"

definition sendMessage :: "string \<Rightarrow> nat \<Rightarrow> string \<Rightarrow> view \<Rightarrow> view" where
  "sendMessage text ms ts v =
     (case cid v of
        None \<Rightarrow> v
      | Some i \<Rightarrow>
          if i = [] \<or> isStreaming v then v
          else
            (let tempUserMessage =
                   \<lparr>msg_id = ''temp-'' @ show_nat ms, conversation_id = i, role = User,
                    content = text, status = Sending, error_message = None,
                    created_at = ts\<rparr>;
                 sub = \<lparr>endpoint = ''/chats/'' @ i @ ''/messages'', sent_content = text,
                        temp_id = msg_id tempUserMessage, sub_conversation = i\<rparr>
             in v\<lparr>error := None,
                  messages := messages v @ [tempUserMessage],
                  isStreaming := True,
                  streamingContent := [],
                  cleanupRef := Some sub,
                  opened := opened v @ [sub]\<rparr>))"

text \<open>
  The callbacks of a stream. The server's \<^verbatim>\<open>onChunk\<close>, \<^verbatim>\<open>onDone\<close> and \<^verbatim>\<open>onError\<close>
  have these names already, so the view's carry a prefix.
\<close>

definition view_onChunk :: "subscription \<Rightarrow> string \<Rightarrow> view \<Rightarrow> view" where
  "view_onChunk sub chunk v = v\<lparr>streamingContent := streamingContent v @ chunk\<rparr>"

definition view_onDone :: "subscription \<Rightarrow> string \<Rightarrow> string \<Rightarrow> string \<Rightarrow> view \<Rightarrow> view" where
  "view_onDone sub messageId fullContent ts v =
     v\<lparr>messages :=
         map (\<lambda>msg. if msg_id msg = temp_id sub
                     then msg\<lparr>status := Sent,
                              msg_id := js_replace ''temp-'' ''user-'' (msg_id msg)\<rparr>
                     else msg) (messages v) @
         [\<lparr>msg_id = messageId, conversation_id = sub_conversation sub, role = Assistant,
           content = fullContent, status = Sent, error_message = None, created_at = ts\<rparr>],
       streamingContent := [],
       isStreaming := False,
       cleanupRef := None\<rparr>"

definition view_onError :: "subscription \<Rightarrow> string \<Rightarrow> view \<Rightarrow> view" where
  "view_onError sub err v =
     v\<lparr>messages :=
         map (\<lambda>msg. if msg_id msg = temp_id sub
                     then msg\<lparr>status := Failed, error_message := Some err\<rparr>
                     else msg) (messages v),
       streamingContent := [],
       isStreaming := False,
       cleanupRef := None,
       error := Some err\<rparr>"

definition handleRetry :: "message \<Rightarrow> nat \<Rightarrow> string \<Rightarrow> view \<Rightarrow> view" where
  "handleRetry message ms ts v =
     sendMessage (content message) ms ts
       (v\<lparr>messages := filter (\<lambda>m. msg_id m \<noteq> msg_id message) (messages v)\<rparr>)"

text \<open>
  What happens to a view: the user sends or retries, and the open stream delivers a
  callback.
\<close>

datatype view_event =
    Send string nat string
  | Retry message nat string
  | StreamChunk string
  | StreamDone string string string
  | StreamError string

text \<open>
  Modelled from the spec: \<^verbatim>\<open>subscribeToSSE\<close> of \<^verbatim>\<open>api/client\<close>, which invokes the
  callbacks, is not among the sources. The Client Stream Consumer "dispatches exactly one
  terminal callback (\<^verbatim>\<open>onDone\<close> or \<^verbatim>\<open>onError\<close>) followed by no further
  \<^verbatim>\<open>onChunk\<close> calls". So callbacks come from the stream held in \<open>cleanupRef\<close> only,
  which the terminal callbacks clear. Sends and retries run the component's handlers on
  the state React has committed.
\<close>

fun view_step :: "view_event \<Rightarrow> view \<Rightarrow> view" where
  "view_step (Send text ms ts) v = sendMessage text ms ts v"
| "view_step (Retry m ms ts) v = handleRetry m ms ts v"
| "view_step (StreamChunk c) v =
     (case cleanupRef v of None \<Rightarrow> v | Some sub \<Rightarrow> view_onChunk sub c v)"
| "view_step (StreamDone i t ts) v =
     (case cleanupRef v of None \<Rightarrow> v | Some sub \<Rightarrow> view_onDone sub i t ts v)"
| "view_step (StreamError err) v =
     (case cleanupRef v of None \<Rightarrow> v | Some sub \<Rightarrow> view_onError sub err v)"

definition view_run :: "view_event list \<Rightarrow> view \<Rightarrow> view" where
  "view_run evs v = fold view_step evs v"

text \<open>
  The optimistic entries of a view, user entries still \<open>sending\<close>, and a view at rest:
  no stream and no optimistic entry.
\<close>

definition pending :: "view \<Rightarrow> message list" where
  "pending v = filter (\<lambda>m. role m = User \<and> status m = Sending) (messages v)"

definition idle :: "view \<Rightarrow> bool" where
  "idle v = (\<not> isStreaming v \<and> cleanupRef v = None \<and> pending v = [])"

text \<open>
  The request a stream carries to the server: \<^verbatim>\<open>POST /chats/{id}/messages\<close> with the
  body \<^verbatim>\<open>JSON.stringify({ content })\<close>.
\<close>

definition request_of :: "subscription \<Rightarrow> request" where
  "request_of sub =
     \<lparr>params_id = sub_conversation sub, body_content = JStr (sent_content sub)\<rparr>"

text \<open>
  What holds of a view between two events: while streaming, the open stream is the one in
  \<open>cleanupRef\<close> and every optimistic entry, at most one, is the one its callbacks close
  over; otherwise there is neither a stream nor an optimistic entry.
\<close>

definition view_inv :: "view \<Rightarrow> bool" where
  "view_inv v =
     (if isStreaming v
      then (case cleanupRef v of
              None \<Rightarrow> False
            | Some sub \<Rightarrow> list_all (\<lambda>m. msg_id m = temp_id sub) (pending v) \<and>
                length (pending v) \<le> 1)
      else cleanupRef v = None \<and> pending v = [])"

section \<open>A sample exchange\<close>

text \<open>
  The data of the scenarios: a store holding one conversation and no message, a request
  sending "hello" to it, and the identifiers and time the handler draws.
\<close>

definition sample_conversation :: conversation where
  "sample_conversation =
     \<lparr>conv_id = ''c1'', title = SqlText ''New Chat'', conv_created_at = ''t0'',
      updated_at = ''t0''\<rparr>"

definition fresh_db :: db where
  "fresh_db = \<lparr>tbl_conversations = [sample_conversation], tbl_messages = []\<rparr>"

definition hello :: request where
  "hello = \<lparr>params_id = ''c1'', body_content = JStr ''hello''\<rparr>"

definition sample_env :: env where
  "sample_env =
     \<lparr>userMessageId = ''u1'', assistantMessageId = ''a1'', now = ''t1'', session_opens = True\<rparr>"

text \<open>
  The exchange after the source failed with the message "boom": the store holds the user
  message and the failed placeholder, the view holds the failed entry.
\<close>

definition failed_db :: db where
  "failed_db =
     \<lparr>tbl_conversations = [sample_conversation\<lparr>updated_at := ''t1''\<rparr>],
      tbl_messages =
        [\<lparr>msg_id = ''u1'', conversation_id = ''c1'', role = User, content = ''hello'',
           status = Sent, error_message = None, created_at = ''t1''\<rparr>,
         \<lparr>msg_id = ''a1'', conversation_id = ''c1'', role = Assistant, content = [],
           status = Failed, error_message = Some ''boom'', created_at = ''t1''\<rparr>]\<rparr>"

definition sample_view :: view where
  "sample_view =
     \<lparr>cid = Some ''c1'', messages = [], error = None, streamingContent = [],
      isStreaming = False, cleanupRef = None, opened = []\<rparr>"

definition failed_entry :: message where
  "failed_entry =
     \<lparr>msg_id = ''temp-7'', conversation_id = ''c1'', role = User, content = ''hello'',
      status = Failed, error_message = Some ''boom'', created_at = ''t1''\<rparr>"

section \<open>Runs, stores and pushed events\<close>

lemma store_after_Nil [simp]: "store_after [] d = d"
  by (simp add: store_after_def)

lemma store_after_Cons [simp]: "store_after (x # xs) d = store_after xs (run_sql x d)"
  by (simp add: store_after_def)

lemma store_after_append [simp]: "store_after (xs @ ys) d = store_after ys (store_after xs d)"
  by (simp add: store_after_def)

lemma pushed_append [simp]: "pushed (xs @ ys) = pushed xs @ pushed ys"
  by (induction xs rule: pushed.induct) simp_all

lemma pushed_chunks [simp]: "pushed (map (\<lambda>c. Push (Chunk c)) fs) = map Chunk fs"
  by (induction fs) simp_all

lemma chunk_payloads_append [simp]:
  "chunk_payloads (xs @ ys) = chunk_payloads xs @ chunk_payloads ys"
  by (induction xs rule: chunk_payloads.induct) simp_all

lemma chunk_payloads_chunks [simp]: "chunk_payloads (map Chunk fs) = fs"
  by (induction fs) simp_all

lemma store_after_chunks [simp]: "store_after (map (\<lambda>c. Push (Chunk c)) fs) d = d"
  by (induction fs) simp_all

lemma snapshots_append [simp]:
  "snapshots (xs @ ys) d = snapshots xs d @ snapshots ys (store_after xs d)"
  by (induction xs d rule: snapshots.induct) simp_all

lemma snapshots_chunks [simp]:
  "snapshots (map (\<lambda>c. Push (Chunk c)) fs) d = map (\<lambda>c. (Chunk c, d)) fs"
  by (induction fs) simp_all

lemma snapshots_split:
  "(ev, store_after pre d) \<in> set (snapshots (pre @ Push ev # post) d)"
  by simp

lemma transitions_ok_append [simp]:
  "transitions_ok ok (xs @ ys) d i =
     (transitions_ok ok xs d i \<and> transitions_ok ok ys (store_after xs d) i)"
  by (induction xs arbitrary: d) auto

text \<open>The route's progress callback relays every fragment and accumulates it.\<close>

lemma relay_onChunk:
  "relay onChunk acc fs = (acc @ concat fs, map (\<lambda>c. Push (Chunk c)) fs)"
  by (induction fs arbitrary: acc) (simp_all add: onChunk_def)

lemma createAIStream_route:
  "createAIStream src onChunk (onError aid) (onDone aid) [] =
     map (\<lambda>c. Push (Chunk c)) (fragments src) @
     (case outcome src of
        Completes \<Rightarrow> onDone aid (concat (fragments src))
      | Fails err \<Rightarrow> onError aid err
      | Cancelled \<Rightarrow> [])"
  by (simp add: createAIStream_def relay_onChunk)

lemma post_message_stream:
  assumes "body_content req = JStr text" and "text \<noteq> []"
    and "get_conversation d (params_id req) = Some c"
  shows "post_message e src d req = stream_effects e src d (params_id req) text"
  using assms by (simp add: post_message_def)

subsection \<open>Looking a message up after a statement\<close>

lemma find_append_first:
  "find P (xs @ ys) = (case find P xs of Some x \<Rightarrow> Some x | None \<Rightarrow> find P ys)"
  by (induction xs) simp_all

lemma find_map_same_id:
  "(\<And>m. msg_id (f m) = msg_id m) \<Longrightarrow>
   find (\<lambda>m. msg_id m = i) (map f ms) = map_option f (find (\<lambda>m. msg_id m = i) ms)"
  by (induction ms) simp_all

lemma get_message_other [simp]:
  "get_message (run_sql CreateSession d) i = get_message d i"
  "get_message (run_sql (CallSource t h) d) i = get_message d i"
  "get_message (run_sql (Push ev) d) i = get_message d i"
  "get_message (run_sql (Respond n b) d) i = get_message d i"
  "get_message (run_sql End d) i = get_message d i"
  "get_message (run_sql (InsertConversation c) d) i = get_message d i"
  "get_message (run_sql (UpdateConversationTime t j) d) i = get_message d i"
  by (simp_all add: get_message_def)

lemma get_message_insert [simp]:
  "get_message (run_sql (InsertMessage m) d) i =
     (case get_message d i of
        Some x \<Rightarrow> Some x
      | None \<Rightarrow> if msg_id m = i then Some m else None)"
  by (simp add: get_message_def find_append_first split: option.splits)

lemma get_message_sent [simp]:
  "get_message (run_sql (UpdateMessageSent t a) d) i =
     map_option (\<lambda>m. if msg_id m = a then m\<lparr>content := t, status := Sent\<rparr> else m)
       (get_message d i)"
  by (simp add: get_message_def find_map_same_id)

lemma get_message_failed [simp]:
  "get_message (run_sql (UpdateMessageFailed err a) d) i =
     map_option (\<lambda>m. if msg_id m = a then m\<lparr>status := Failed, error_message := Some err\<rparr> else m)
       (get_message d i)"
  by (simp add: get_message_def find_map_same_id)

lemma get_message_fresh:
  "a \<notin> msg_id ` set (tbl_messages d) \<Longrightarrow> get_message d a = None"
  by (auto simp: get_message_def find_None_iff)

lemma sample_lookup [simp]:
  "get_conversation fresh_db ''c1'' = Some sample_conversation"
  by (simp add: get_conversation_def fresh_db_def sample_conversation_def)

lemma sample_history [simp]: "conversationHistory fresh_db i = []"
  by (simp add: conversationHistory_def fresh_db_def)

section \<open>Successful streams\<close>

text \<open>
  Claim C1. A request with a non-empty string content to an existing conversation, whose
  session opens and whose Completion Source completes, pushes one \<open>chunk\<close> event per
  fragment and then a single \<open>done\<close> event; the chunk payloads put together are the
  content of the \<open>done\<close> event, and they are the content stored on the assistant
  placeholder, whose status is then \<open>sent\<close>. The placeholder's identifier is a fresh
  one, different from the user message's.
\<close>

theorem stream_chunks_equal_done_content:
  assumes "body_content req = JStr text" and "text \<noteq> []"
    and "get_conversation d (params_id req) = Some c"
    and "session_opens e" and "outcome src = Completes"
    and "assistantMessageId e \<notin> msg_id ` set (tbl_messages d)"
    and "userMessageId e \<noteq> assistantMessageId e"
  shows "\<exists>full.
     pushed (post_message e src d req) =
       map Chunk (fragments src) @ [Done (assistantMessageId e) full] \<and>
     concat (chunk_payloads (pushed (post_message e src d req))) = full \<and>
     get_message (store_after (post_message e src d req) d) (assistantMessageId e) =
       Some \<lparr>msg_id = assistantMessageId e, conversation_id = params_id req, role = Assistant,
             content = full, status = Sent, error_message = None, created_at = now e\<rparr>"
proof -
  have run: "post_message e src d req = stream_effects e src d (params_id req) text"
    using assms(1-3) by (rule post_message_stream)
  have none: "get_message d (assistantMessageId e) = None"
    using assms(6) by (rule get_message_fresh)
  show ?thesis
    unfolding run using assms(4,5,7) none
    by (simp add: stream_effects_def createAIStream_route onDone_def del: run_sql.simps)
qed

text \<open>
  The scenario of the specification: "hello" sent to a fresh conversation, the source
  yielding "Hi" and " there".
\<close>

theorem stream_chunks_equal_done_content_witness:
  "pushed (post_message sample_env \<lparr>fragments = [''Hi'', '' there''], outcome = Completes\<rparr>
       fresh_db hello)
     = [Chunk ''Hi'', Chunk '' there'', Done ''a1'' ''Hi there''] \<and>
   get_message
     (store_after
        (post_message sample_env \<lparr>fragments = [''Hi'', '' there''], outcome = Completes\<rparr>
           fresh_db hello) fresh_db) ''a1''
     = Some \<lparr>msg_id = ''a1'', conversation_id = ''c1'', role = Assistant,
             content = ''Hi there'', status = Sent, error_message = None, created_at = ''t1''\<rparr>"
proof -
  let ?effs = "post_message sample_env \<lparr>fragments = [''Hi'', '' there''], outcome = Completes\<rparr>
       fresh_db hello"
  have "\<exists>full. pushed ?effs = map Chunk [''Hi'', '' there''] @ [Done ''a1'' full] \<and>
     concat (chunk_payloads (pushed ?effs)) = full \<and>
     get_message (store_after ?effs fresh_db) ''a1'' =
       Some \<lparr>msg_id = ''a1'', conversation_id = ''c1'', role = Assistant,
             content = full, status = Sent, error_message = None, created_at = ''t1''\<rparr>"
    using stream_chunks_equal_done_content
      [of hello "''hello''" fresh_db sample_conversation sample_env
        "\<lparr>fragments = [''Hi'', '' there''], outcome = Completes\<rparr>"]
    by (simp add: hello_def sample_env_def) (simp add: fresh_db_def)
  then obtain full where
    evs: "pushed ?effs = map Chunk [''Hi'', '' there''] @ [Done ''a1'' full]" and
    cat: "concat (chunk_payloads (pushed ?effs)) = full" and
    row: "get_message (store_after ?effs fresh_db) ''a1'' =
       Some \<lparr>msg_id = ''a1'', conversation_id = ''c1'', role = Assistant,
             content = full, status = Sent, error_message = None, created_at = ''t1''\<rparr>"
    by blast
  from cat have "full = ''Hi there''"
    unfolding evs by simp
  with evs row show ?thesis by simp
qed

section \<open>Input validation and missing conversations\<close>

lemma post_message_invalid:
  "\<not> truthy (body_content req) \<or> typeof (body_content req) \<noteq> TString \<Longrightarrow>
   post_message e src d req = [Respond 400 (ErrorBody ''Message content is required'')]"
  by (simp add: post_message_def)

lemma post_message_missing:
  "truthy (body_content req) \<Longrightarrow> typeof (body_content req) = TString \<Longrightarrow>
   get_conversation d (params_id req) = None \<Longrightarrow>
   post_message e src d req = [Respond 404 (ErrorBody ''Conversation not found'')]"
  by (simp add: post_message_def)






section \<open>Creating a conversation\<close>

text \<open>
  Claim C10. When the body of \<^verbatim>\<open>POST /\<close> has no title, or a falsy one, the
  conversation is inserted with the title "New Chat" and the response is 201 with that
  record. The identifier drawn for the conversation is a fresh one.
\<close>

theorem default_title:
  assumes "\<not> truthy ttl" and "i \<notin> conv_id ` set (tbl_conversations d)"
  shows "post_conversation i t d ttl =
     [InsertConversation
        \<lparr>conv_id = i, title = SqlText ''New Chat'', conv_created_at = t, updated_at = t\<rparr>,
      Respond 201 (ConversationBody
        \<lparr>conv_id = i, title = SqlText ''New Chat'', conv_created_at = t, updated_at = t\<rparr>)] \<and>
     get_conversation (store_after (post_conversation i t d ttl) d) i =
       Some \<lparr>conv_id = i, title = SqlText ''New Chat'', conv_created_at = t, updated_at = t\<rparr>"
proof -
  have "find (\<lambda>c. conv_id c = i) (tbl_conversations d) = None"
    using assms(2) by (auto simp: find_None_iff)
  then show ?thesis
    using assms(1)
    by (simp add: post_conversation_def get_conversation_def find_append_first)
qed

theorem default_title_witness:
  "post_conversation ''c2'' ''t2'' fresh_db JUndefined =
     [InsertConversation
        \<lparr>conv_id = ''c2'', title = SqlText ''New Chat'', conv_created_at = ''t2'',
         updated_at = ''t2''\<rparr>,
      Respond 201 (ConversationBody
        \<lparr>conv_id = ''c2'', title = SqlText ''New Chat'', conv_created_at = ''t2'',
         updated_at = ''t2''\<rparr>)]"
  using default_title [of JUndefined "''c2''" fresh_db "''t2''"]
  by (simp add: fresh_db_def sample_conversation_def)

section \<open>Persistence and pushes in order\<close>

lemma snapshots_stream:
  assumes "(ev, s) \<in> set (snapshots (stream_effects e src d i text) d)"
  shows "(\<exists>c. ev = Chunk c \<and>
            tbl_messages s = tbl_messages d @
              [\<lparr>msg_id = userMessageId e, conversation_id = i, role = User,
                 content = text, status = Sent, error_message = None, created_at = now e\<rparr>,
               \<lparr>msg_id = assistantMessageId e, conversation_id = i, role = Assistant,
                 content = [], status = Sending, error_message = None, created_at = now e\<rparr>]) \<or>
         (\<exists>full. ev = Done (assistantMessageId e) full \<and>
            tbl_messages s =
              map (\<lambda>m. if msg_id m = assistantMessageId e
                        then m\<lparr>content := full, status := Sent\<rparr> else m)
              (tbl_messages d @
              [\<lparr>msg_id = userMessageId e, conversation_id = i, role = User,
                 content = text, status = Sent, error_message = None, created_at = now e\<rparr>,
               \<lparr>msg_id = assistantMessageId e, conversation_id = i, role = Assistant,
                 content = [], status = Sending, error_message = None, created_at = now e\<rparr>])) \<or>
         (\<exists>err. ev = Error err \<and>
            tbl_messages s =
              map (\<lambda>m. if msg_id m = assistantMessageId e
                        then m\<lparr>status := Failed, error_message := Some err\<rparr> else m)
              (tbl_messages d @
              [\<lparr>msg_id = userMessageId e, conversation_id = i, role = User,
                 content = text, status = Sent, error_message = None, created_at = now e\<rparr>,
               \<lparr>msg_id = assistantMessageId e, conversation_id = i, role = Assistant,
                 content = [], status = Sending, error_message = None, created_at = now e\<rparr>]))"
proof (cases "session_opens e")
  case False
  with assms show ?thesis by (simp add: stream_effects_def)
next
  case True
  with assms show ?thesis
    by (cases "outcome src")
      (auto simp: stream_effects_def createAIStream_route onDone_def onError_def)
qed

text \<open>
  Claim C2. Whenever a send request pushes an event, the store at that moment already
  holds the user message; at a \<open>chunk\<close> event it holds the placeholder, still
  \<open>sending\<close>; at the \<open>done\<close> event it holds the placeholder as \<open>sent\<close> with
  the event's content; at the \<open>error\<close> event it holds the placeholder as \<open>failed\<close>
  with the event's message. \<open>pre\<close> is the part of the run before the push.
\<close>

theorem persistence_precedes_push:
  assumes "body_content req = JStr text" and "text \<noteq> []"
    and "get_conversation d (params_id req) = Some c"
    and "userMessageId e \<noteq> assistantMessageId e"
    and "post_message e src d req = pre @ Push ev # post"
  shows "\<lparr>msg_id = userMessageId e, conversation_id = params_id req, role = User,
           content = text, status = Sent, error_message = None, created_at = now e\<rparr>
           \<in> set (tbl_messages (store_after pre d)) \<and>
         (case ev of
            Chunk _ \<Rightarrow>
              \<lparr>msg_id = assistantMessageId e, conversation_id = params_id req, role = Assistant,
               content = [], status = Sending, error_message = None, created_at = now e\<rparr>
                \<in> set (tbl_messages (store_after pre d))
          | Done _ full \<Rightarrow>
              \<lparr>msg_id = assistantMessageId e, conversation_id = params_id req, role = Assistant,
               content = full, status = Sent, error_message = None, created_at = now e\<rparr>
                \<in> set (tbl_messages (store_after pre d))
          | Error err \<Rightarrow>
              \<lparr>msg_id = assistantMessageId e, conversation_id = params_id req, role = Assistant,
               content = [], status = Failed, error_message = Some err, created_at = now e\<rparr>
                \<in> set (tbl_messages (store_after pre d)))"
proof -
  have run: "post_message e src d req = stream_effects e src d (params_id req) text"
    using assms(1-3) by (rule post_message_stream)
  have "(ev, store_after pre d) \<in> set (snapshots (pre @ Push ev # post) d)"
    by (rule snapshots_split)
  then have mem:
    "(ev, store_after pre d) \<in> set (snapshots (stream_effects e src d (params_id req) text) d)"
    using assms(5) run by simp
  from snapshots_stream [OF mem] assms(4) show ?thesis
    by auto
qed

lemma sample_run:
  "post_message sample_env \<lparr>fragments = [''Hi''], outcome = Completes\<rparr> fresh_db hello =
     [InsertMessage \<lparr>msg_id = ''u1'', conversation_id = ''c1'', role = User,
        content = ''hello'', status = Sent, error_message = None, created_at = ''t1''\<rparr>,
      InsertMessage \<lparr>msg_id = ''a1'', conversation_id = ''c1'', role = Assistant,
        content = [], status = Sending, error_message = None, created_at = ''t1''\<rparr>,
      UpdateConversationTime ''t1'' ''c1'', CreateSession, CallSource ''hello'' [],
      Push (Chunk ''Hi''), UpdateMessageSent ''Hi'' ''a1'', Push (Done ''a1'' ''Hi''), End]"
  by (simp add: post_message_def hello_def stream_effects_def sample_env_def
      createAIStream_route onDone_def)

theorem persistence_precedes_push_witness:
  "\<lparr>msg_id = ''u1'', conversation_id = ''c1'', role = User, content = ''hello'',
     status = Sent, error_message = None, created_at = ''t1''\<rparr>
     \<in> set (tbl_messages (store_after
         [InsertMessage \<lparr>msg_id = ''u1'', conversation_id = ''c1'', role = User,
            content = ''hello'', status = Sent, error_message = None, created_at = ''t1''\<rparr>,
          InsertMessage \<lparr>msg_id = ''a1'', conversation_id = ''c1'', role = Assistant,
            content = [], status = Sending, error_message = None, created_at = ''t1''\<rparr>,
          UpdateConversationTime ''t1'' ''c1'', CreateSession, CallSource ''hello'' [],
          Push (Chunk ''Hi''), UpdateMessageSent ''Hi'' ''a1''] fresh_db)) \<and>
   \<lparr>msg_id = ''a1'', conversation_id = ''c1'', role = Assistant, content = ''Hi'',
     status = Sent, error_message = None, created_at = ''t1''\<rparr>
     \<in> set (tbl_messages (store_after
         [InsertMessage \<lparr>msg_id = ''u1'', conversation_id = ''c1'', role = User,
            content = ''hello'', status = Sent, error_message = None, created_at = ''t1''\<rparr>,
          InsertMessage \<lparr>msg_id = ''a1'', conversation_id = ''c1'', role = Assistant,
            content = [], status = Sending, error_message = None, created_at = ''t1''\<rparr>,
          UpdateConversationTime ''t1'' ''c1'', CreateSession, CallSource ''hello'' [],
          Push (Chunk ''Hi''), UpdateMessageSent ''Hi'' ''a1''] fresh_db))"
proof -
  let ?pre = "[InsertMessage \<lparr>msg_id = ''u1'', conversation_id = ''c1'', role = User,
            content = ''hello'', status = Sent, error_message = None, created_at = ''t1''\<rparr>,
          InsertMessage \<lparr>msg_id = ''a1'', conversation_id = ''c1'', role = Assistant,
            content = [], status = Sending, error_message = None, created_at = ''t1''\<rparr>,
          UpdateConversationTime ''t1'' ''c1'', CreateSession, CallSource ''hello'' [],
          Push (Chunk ''Hi''), UpdateMessageSent ''Hi'' ''a1'']"
  have split: "post_message sample_env \<lparr>fragments = [''Hi''], outcome = Completes\<rparr> fresh_db hello
      = ?pre @ Push (Done ''a1'' ''Hi'') # [End]"
    by (simp add: sample_run)
  have h1: "body_content hello = JStr ''hello''" by (simp add: hello_def)
  have h2: "''hello'' \<noteq> []" by simp
  have h3: "get_conversation fresh_db (params_id hello) = Some sample_conversation"
    by (simp add: hello_def)
  have h4: "userMessageId sample_env \<noteq> assistantMessageId sample_env"
    by (simp add: sample_env_def)
  from persistence_precedes_push [OF h1 h2 h3 h4 split]
  show ?thesis by (simp add: hello_def sample_env_def del: store_after_Cons)
qed

section \<open>Status transitions\<close>

lemma placeholder_first_refl [simp]: "placeholder_first x x"
  by (cases x) simp_all

lemma transitions_ok_chunks [simp]:
  "transitions_ok placeholder_first (map (\<lambda>c. Push (Chunk c)) fs) d i"
  by (induction fs) simp_all

lemma transitions_ok_stream:
  assumes "get_message d (assistantMessageId e) = None"
    and "userMessageId e \<noteq> assistantMessageId e"
  shows "transitions_ok placeholder_first (stream_effects e src d j text) d i"
proof (cases "get_message d i")
  case None
  with assms show ?thesis
    by (cases "outcome src")
      (auto simp add: stream_effects_def createAIStream_route onDone_def onError_def
        simp del: run_sql.simps)
next
  case (Some m)
  with assms have "i \<noteq> assistantMessageId e" by auto
  moreover from Some have "msg_id m = i"
    by (auto simp: get_message_def find_Some_iff)
  ultimately show ?thesis
    using Some
    by (cases "outcome src")
      (simp_all add: stream_effects_def createAIStream_route onDone_def onError_def
        del: run_sql.simps)
qed

text \<open>
  Claim C3, as the code has it. At every statement of a send request, every message row
  changes as \<open>placeholder_first\<close> allows: an assistant row is created as \<open>sending\<close>
  and moves only from \<open>sending\<close> to \<open>sent\<close> or \<open>failed\<close>, no row leaves a
  terminal status, and a user row is created as \<open>sent\<close> at once and keeps its status.
  The placeholder's identifier is a fresh one, different from the user message's.
\<close>

theorem status_transitions:
  assumes "assistantMessageId e \<notin> msg_id ` set (tbl_messages d)"
    and "userMessageId e \<noteq> assistantMessageId e"
  shows "transitions_ok placeholder_first (post_message e src d req) d i"
proof -
  have none: "get_message d (assistantMessageId e) = None"
    using assms(1) by (rule get_message_fresh)
  show ?thesis
    unfolding post_message_def
    by (simp add: transitions_ok_stream [OF none assms(2)]
        split: option.splits js_value.splits)
qed

theorem status_transitions_witness:
  "transitions_ok placeholder_first
     (post_message sample_env \<lparr>fragments = [''Hi''], outcome = Completes\<rparr> fresh_db hello)
     fresh_db ''u1''"
  using status_transitions [of sample_env fresh_db
      "\<lparr>fragments = [''Hi''], outcome = Completes\<rparr>" hello "''u1''"]
  by (simp add: sample_env_def fresh_db_def)

text \<open>
  Claim C3, as stated, fails for the user message: in the sample exchange the row
  \<open>u1\<close> appears with status \<open>sent\<close> without having been \<open>sending\<close>.
\<close>

theorem user_message_skips_sending:
  "\<not> transitions_ok sending_first
     (post_message sample_env \<lparr>fragments = [''Hi''], outcome = Completes\<rparr> fresh_db hello)
     fresh_db ''u1''"
  unfolding sample_run by (simp add: get_message_def fresh_db_def)

section \<open>A failing Completion Source\<close>

text \<open>
  Claim C5, as the code has it. When the source fails after yielding fragments, the
  events pushed are the chunks followed by exactly one \<open>error\<close> event and no
  \<open>done\<close> event, the run ends with that push and \<^verbatim>\<open>res.end()\<close>, and the
  placeholder is stored as \<open>failed\<close> with the message of the source's error as its
  error detail.
\<close>

theorem source_failure_recorded:
  assumes "body_content req = JStr text" and "text \<noteq> []"
    and "get_conversation d (params_id req) = Some c"
    and "session_opens e" and "outcome src = Fails err"
    and "assistantMessageId e \<notin> msg_id ` set (tbl_messages d)"
    and "userMessageId e \<noteq> assistantMessageId e"
  shows "pushed (post_message e src d req) = map Chunk (fragments src) @ [Error err] \<and>
     \<not> list_ex is_done (pushed (post_message e src d req)) \<and>
     (\<exists>pre. post_message e src d req = pre @ [Push (Error err), End]) \<and>
     get_message (store_after (post_message e src d req) d) (assistantMessageId e) =
       Some \<lparr>msg_id = assistantMessageId e, conversation_id = params_id req, role = Assistant,
             content = [], status = Failed, error_message = Some err, created_at = now e\<rparr>"
proof -
  have run: "post_message e src d req = stream_effects e src d (params_id req) text"
    using assms(1-3) by (rule post_message_stream)
  have none: "get_message d (assistantMessageId e) = None"
    using assms(6) by (rule get_message_fresh)
  have nodone: "\<not> list_ex is_done (map Chunk fs)" for fs
    by (induction fs) simp_all
  show ?thesis
    unfolding run using assms(4,5,7) none nodone
    by (simp add: stream_effects_def createAIStream_route onError_def list_ex_iff
        del: run_sql.simps)
qed

theorem source_failure_recorded_witness:
  "pushed (post_message sample_env \<lparr>fragments = [''Hi''], outcome = Fails ''boom''\<rparr>
       fresh_db hello) = [Chunk ''Hi'', Error ''boom''] \<and>
   get_message (store_after
       (post_message sample_env \<lparr>fragments = [''Hi''], outcome = Fails ''boom''\<rparr>
          fresh_db hello) fresh_db) ''a1'' =
     Some \<lparr>msg_id = ''a1'', conversation_id = ''c1'', role = Assistant, content = [],
       status = Failed, error_message = Some ''boom'', created_at = ''t1''\<rparr>"
  using source_failure_recorded [of hello "''hello''" fresh_db sample_conversation sample_env
      "\<lparr>fragments = [''Hi''], outcome = Fails ''boom''\<rparr>" "''boom''"]
  by (simp add: hello_def sample_env_def) (simp add: fresh_db_def)

text \<open>
  Claim C5, as stated, fails for the error detail: a source failing with an error whose
  message is empty leaves an empty detail on the placeholder.
\<close>

theorem empty_error_detail:
  "get_message (store_after
       (post_message sample_env \<lparr>fragments = [''Hi''], outcome = Fails []\<rparr>
          fresh_db hello) fresh_db) ''a1'' =
     Some \<lparr>msg_id = ''a1'', conversation_id = ''c1'', role = Assistant, content = [],
       status = Failed, error_message = Some [], created_at = ''t1''\<rparr>"
  by (simp add: post_message_def hello_def stream_effects_def sample_env_def
      createAIStream_route onError_def)
    (simp add: fresh_db_def get_message_def)

section \<open>The view: sending and streaming\<close>

lemma idle_view_inv: "idle v \<Longrightarrow> view_inv v"
  by (simp add: idle_def view_inv_def)

lemma view_inv_pending: "view_inv v \<Longrightarrow> length (pending v) \<le> 1"
  by (auto simp: view_inv_def split: if_splits option.splits)

lemma sendMessage_streaming: "isStreaming v \<Longrightarrow> sendMessage text ms ts v = v"
  by (simp add: sendMessage_def split: option.splits)

lemma view_inv_send: "view_inv v \<Longrightarrow> view_inv (sendMessage text ms ts v)"
  by (auto simp: view_inv_def sendMessage_def pending_def Let_def split: option.splits if_splits)

lemma view_inv_filter:
  "view_inv v \<Longrightarrow> view_inv (v\<lparr>messages := filter P (messages v)\<rparr>)"
proof -
  have eq: "pending (v\<lparr>messages := filter P (messages v)\<rparr>) = filter P (pending v)"
    by (auto simp: pending_def intro: filter_cong)
  have len: "length (filter P (pending v)) \<le> 1" if "length (pending v) \<le> 1"
    using that le_trans [OF length_filter_le] by blast
  assume "view_inv v"
  then show ?thesis
    using len unfolding view_inv_def eq
    by (auto simp: list_all_iff split: if_splits option.splits)
qed

lemma view_inv_retry: "view_inv v \<Longrightarrow> view_inv (handleRetry m ms ts v)"
  unfolding handleRetry_def by (intro view_inv_send view_inv_filter)

lemma view_inv_chunk: "view_inv v \<Longrightarrow> view_inv (view_onChunk sub c v)"
proof -
  have "pending (view_onChunk sub c v) = pending v"
    by (simp add: pending_def view_onChunk_def)
  moreover have "isStreaming (view_onChunk sub c v) = isStreaming v"
    and "cleanupRef (view_onChunk sub c v) = cleanupRef v"
    by (simp_all add: view_onChunk_def)
  ultimately show "view_inv v \<Longrightarrow> view_inv (view_onChunk sub c v)"
    by (auto simp: view_inv_def split: option.splits if_splits)
qed

lemma view_inv_done:
  assumes "view_inv v" and "cleanupRef v = Some sub"
  shows "view_inv (view_onDone sub i t ts v)"
proof -
  from assms have all: "\<forall>m \<in> set (messages v). role m = User \<and> status m = Sending \<longrightarrow>
      msg_id m = temp_id sub"
    by (auto simp: view_inv_def pending_def list_all_iff split: if_splits)
  then have "pending (view_onDone sub i t ts v) = []"
    by (auto simp: pending_def view_onDone_def filter_empty_conv)
  then show ?thesis
    by (simp add: view_inv_def) (simp add: view_onDone_def)
qed

lemma view_inv_error:
  assumes "view_inv v" and "cleanupRef v = Some sub"
  shows "view_inv (view_onError sub err v)"
proof -
  from assms have all: "\<forall>m \<in> set (messages v). role m = User \<and> status m = Sending \<longrightarrow>
      msg_id m = temp_id sub"
    by (auto simp: view_inv_def pending_def list_all_iff split: if_splits)
  then have "pending (view_onError sub err v) = []"
    by (auto simp: pending_def view_onError_def filter_empty_conv)
  then show ?thesis
    by (simp add: view_inv_def) (simp add: view_onError_def)
qed

lemma view_inv_step: "view_inv v \<Longrightarrow> view_inv (view_step ev v)"
  by (cases ev)
    (auto simp: view_inv_send view_inv_retry view_inv_chunk view_inv_done view_inv_error
      split: option.splits)

lemma view_inv_run: "view_inv v \<Longrightarrow> view_inv (view_run evs v)"
  unfolding view_run_def by (induction evs arbitrary: v) (simp_all add: view_inv_step)

lemma show_nat_7 [simp]: "show_nat 7 = ''7''"
  by (simp add: show_nat.simps)

lemma show_nat_8 [simp]: "show_nat 8 = ''8''"
  by (simp add: show_nat.simps)

lemma sample_send:
  "sendMessage ''hello'' 7 ''t1'' sample_view =
     \<lparr>cid = Some ''c1'',
      messages = [\<lparr>msg_id = ''temp-7'', conversation_id = ''c1'', role = User,
        content = ''hello'', status = Sending, error_message = None, created_at = ''t1''\<rparr>],
      error = None, streamingContent = [], isStreaming = True,
      cleanupRef = Some \<lparr>endpoint = ''/chats/c1/messages'', sent_content = ''hello'',
        temp_id = ''temp-7'', sub_conversation = ''c1''\<rparr>,
      opened = [\<lparr>endpoint = ''/chats/c1/messages'', sent_content = ''hello'',
        temp_id = ''temp-7'', sub_conversation = ''c1''\<rparr>]\<rparr>"
  by (simp add: sendMessage_def sample_view_def Let_def)

lemma failed_view:
  "view_run [Send ''hello'' 7 ''t1'', StreamError ''boom''] sample_view =
     sample_view\<lparr>messages := [failed_entry], error := Some ''boom'',
       opened := [\<lparr>endpoint = ''/chats/c1/messages'', sent_content = ''hello'',
         temp_id = ''temp-7'', sub_conversation = ''c1''\<rparr>]\<rparr>"
  by (simp add: view_run_def sample_send view_onError_def failed_entry_def)
    (simp add: sample_view_def)

lemma streaming_view:
  "view_run [Send ''hello'' 7 ''t1'', StreamError ''boom'', Send ''next'' 8 ''t2''] sample_view =
     sample_view\<lparr>messages := [failed_entry,
        \<lparr>msg_id = ''temp-8'', conversation_id = ''c1'', role = User, content = ''next'',
          status = Sending, error_message = None, created_at = ''t2''\<rparr>],
       isStreaming := True,
       cleanupRef := Some \<lparr>endpoint = ''/chats/c1/messages'', sent_content = ''next'',
         temp_id = ''temp-8'', sub_conversation = ''c1''\<rparr>,
       opened := [\<lparr>endpoint = ''/chats/c1/messages'', sent_content = ''hello'',
         temp_id = ''temp-7'', sub_conversation = ''c1''\<rparr>,
         \<lparr>endpoint = ''/chats/c1/messages'', sent_content = ''next'',
         temp_id = ''temp-8'', sub_conversation = ''c1''\<rparr>]\<rparr>"
proof -
  have "view_run [Send ''hello'' 7 ''t1'', StreamError ''boom'', Send ''next'' 8 ''t2''] sample_view
      = sendMessage ''next'' 8 ''t2''
          (view_run [Send ''hello'' 7 ''t1'', StreamError ''boom''] sample_view)"
    by (simp add: view_run_def)
  then show ?thesis
    unfolding failed_view by (simp add: sendMessage_def sample_view_def Let_def)
qed

text \<open>
  Claim C6. A \<open>sendMessage\<close> while the view is streaming changes nothing: no entry is
  added and no stream is opened. So, from a view at rest, whatever the user and the open
  stream do, at most one optimistic entry is pending.
\<close>

theorem single_pending_exchange:
  "(isStreaming v \<longrightarrow> sendMessage text ms ts v = v) \<and>
   (idle v0 \<longrightarrow> length (pending (view_run evs v0)) \<le> 1)"
proof (intro conjI impI)
  assume "isStreaming v"
  then show "sendMessage text ms ts v = v"
    by (rule sendMessage_streaming)
next
  assume "idle v0"
  then have "view_inv (view_run evs v0)"
    by (intro view_inv_run idle_view_inv)
  then show "length (pending (view_run evs v0)) \<le> 1"
    by (rule view_inv_pending)
qed

theorem single_pending_exchange_witness:
  "isStreaming (sendMessage ''hello'' 7 ''t1'' sample_view) \<and>
   sendMessage ''again'' 8 ''t2'' (sendMessage ''hello'' 7 ''t1'' sample_view) =
     sendMessage ''hello'' 7 ''t1'' sample_view \<and>
   idle sample_view \<and>
   length (pending (view_run [Send ''hello'' 7 ''t1'', Send ''again'' 8 ''t2''] sample_view)) \<le> 1"
  using single_pending_exchange [of "sendMessage ''hello'' 7 ''t1'' sample_view" "''again''" 8
      "''t2''" sample_view "[Send ''hello'' 7 ''t1'', Send ''again'' 8 ''t2'']"]
  by (simp add: sample_send) (simp add: idle_def pending_def sample_view_def)

section \<open>The view: completion\<close>

lemma replace_temp [simp]: "js_replace ''temp-'' ''user-'' (''temp-'' @ s) = ''user-'' @ s"
  by simp

text \<open>
  Claim C7. On \<open>onDone\<close>, the optimistic entry \<open>m\<close> of the stream, the only entry
  with its temporary identifier, is replaced by the same entry with status \<open>sent\<close> and
  the identifier \<open>user-\<close> in place of \<open>temp-\<close>; an assistant entry with the
  identifier and text of the event is appended; the streaming buffer is emptied and the
  view is no longer streaming.
\<close>

theorem done_confirms_exchange:
  assumes "messages v = pre @ [m] @ post"
    and "msg_id m = ''temp-'' @ show_nat ms"
    and "temp_id sub = msg_id m"
    and "\<forall>x \<in> set (pre @ post). msg_id x \<noteq> msg_id m"
  shows "messages (view_onDone sub messageId fullContent ts v) =
           pre @ [m\<lparr>status := Sent, msg_id := ''user-'' @ show_nat ms\<rparr>] @ post @
           [\<lparr>msg_id = messageId, conversation_id = sub_conversation sub, role = Assistant,
             content = fullContent, status = Sent, error_message = None, created_at = ts\<rparr>] \<and>
         streamingContent (view_onDone sub messageId fullContent ts v) = [] \<and>
         \<not> isStreaming (view_onDone sub messageId fullContent ts v) \<and>
         cleanupRef (view_onDone sub messageId fullContent ts v) = None"
proof -
  define f :: "message \<Rightarrow> message" where "f = (\<lambda>msg. if msg_id msg = temp_id sub
                     then msg\<lparr>status := Sent,
                              msg_id := js_replace ''temp-'' ''user-'' (msg_id msg)\<rparr>
                     else msg)"
  have keep: "map f xs = xs" if "\<forall>x \<in> set xs. msg_id x \<noteq> temp_id sub" for xs
    using that by (induction xs) (simp_all add: f_def)
  have "js_replace ''temp-'' ''user-'' (msg_id m) = ''user-'' @ show_nat ms"
    unfolding assms(2) by (rule replace_temp)
  then have new: "f m = m\<lparr>status := Sent, msg_id := ''user-'' @ show_nat ms\<rparr>"
    using assms(3) by (simp add: f_def)
  have "map f pre = pre" and "map f post = post"
    using assms(3,4) by (auto intro!: keep)
  then have "map f (messages v) =
      pre @ [m\<lparr>status := Sent, msg_id := ''user-'' @ show_nat ms\<rparr>] @ post"
    using new by (simp add: assms(1))
  then show ?thesis
    by (simp add: view_onDone_def f_def [symmetric])
qed

theorem done_confirms_exchange_witness:
  "messages (view_onDone
      \<lparr>endpoint = ''/chats/c1/messages'', sent_content = ''hello'', temp_id = ''temp-7'',
        sub_conversation = ''c1''\<rparr> ''a1'' ''Hi there'' ''t2''
      (sendMessage ''hello'' 7 ''t1'' sample_view)) =
     [\<lparr>msg_id = ''user-7'', conversation_id = ''c1'', role = User, content = ''hello'',
        status = Sent, error_message = None, created_at = ''t1''\<rparr>,
      \<lparr>msg_id = ''a1'', conversation_id = ''c1'', role = Assistant, content = ''Hi there'',
        status = Sent, error_message = None, created_at = ''t2''\<rparr>]"
  using done_confirms_exchange [of "sendMessage ''hello'' 7 ''t1'' sample_view" "[]"
      "\<lparr>msg_id = ''temp-7'', conversation_id = ''c1'', role = User,
        content = ''hello'', status = Sending, error_message = None, created_at = ''t1''\<rparr>"
      "[]" 7
      "\<lparr>endpoint = ''/chats/c1/messages'', sent_content = ''hello'', temp_id = ''temp-7'',
        sub_conversation = ''c1''\<rparr>" "''a1''" "''Hi there''" "''t2''"]
  by (simp add: sample_send)

section \<open>The view: retry\<close>

text \<open>The store of the retry scenario is the store the failed exchange leaves.\<close>

lemma sample_failure:
  "store_after (post_message sample_env \<lparr>fragments = [''Hi''], outcome = Fails ''boom''\<rparr>
      fresh_db hello) fresh_db = failed_db"
  by (simp add: post_message_def hello_def stream_effects_def sample_env_def
      createAIStream_route onError_def)
    (simp add: fresh_db_def failed_db_def sample_conversation_def)

lemma map_other_ids:
  "a \<notin> msg_id ` set ms \<Longrightarrow> map (\<lambda>m. if msg_id m = a then f m else m) ms = ms"
  by (induction ms) auto

lemma stream_appends_pair:
  assumes "assistantMessageId e \<notin> msg_id ` set (tbl_messages d)"
    and "userMessageId e \<noteq> assistantMessageId e"
  shows "\<exists>p. tbl_messages (store_after (stream_effects e src d i text) d) =
           tbl_messages d @
           [\<lparr>msg_id = userMessageId e, conversation_id = i, role = User, content = text,
              status = Sent, error_message = None, created_at = now e\<rparr>, p] \<and>
           msg_id p = assistantMessageId e \<and> role p = Assistant"
proof (cases "session_opens e")
  case False
  then show ?thesis by (simp add: stream_effects_def)
next
  case True
  with assms show ?thesis
    by (cases "outcome src")
      (simp_all add: stream_effects_def createAIStream_route onDone_def onError_def
        map_other_ids)
qed

lemma post_message_keeps_rows:
  assumes "assistantMessageId e \<notin> msg_id ` set (tbl_messages d)"
    and "userMessageId e \<noteq> assistantMessageId e"
  shows "prefix (tbl_messages d) (tbl_messages (store_after (post_message e src d req) d))"
proof (cases "\<not> truthy (body_content req) \<or> typeof (body_content req) \<noteq> TString")
  case True
  then show ?thesis by (simp add: post_message_invalid)
next
  case False
  then obtain t where body: "body_content req = JStr t" and filled: "t \<noteq> []"
    by (cases "body_content req") auto
  show ?thesis
  proof (cases "get_conversation d (params_id req)")
    case None
    with False show ?thesis by (simp add: post_message_missing)
  next
    case (Some c)
    with body filled
    have "post_message e src d req = stream_effects e src d (params_id req) t"
      by (rule post_message_stream)
    with stream_appends_pair [OF assms, of src "params_id req" t]
    show ?thesis by auto
  qed
qed

text \<open>
  Claim C8, as the code has it. In the view of a conversation with no stream in
  progress, a retry removes the failed entry from the view, adds a new optimistic entry
  with the failed entry's text and opens a stream with that text. Whatever the server
  answers to the request of that stream, every row the store held stays as it was, in
  its place; and when the text is not empty and the conversation exists in the store,
  the request appends a new user message with the text and a new placeholder. The
  identifier drawn for the placeholder is a fresh one, different from the user
  message's.
\<close>

theorem retry_sends_again:
  assumes "cid v = Some i" and "i \<noteq> []" and "\<not> isStreaming v"
    and "assistantMessageId e \<notin> msg_id ` set (tbl_messages d)"
    and "userMessageId e \<noteq> assistantMessageId e"
  shows "messages (handleRetry m ms ts v) =
           filter (\<lambda>x. msg_id x \<noteq> msg_id m) (messages v) @
           [\<lparr>msg_id = ''temp-'' @ show_nat ms, conversation_id = i, role = User,
             content = content m, status = Sending, error_message = None, created_at = ts\<rparr>] \<and>
         opened (handleRetry m ms ts v) =
           opened v @
           [\<lparr>endpoint = ''/chats/'' @ i @ ''/messages'', sent_content = content m,
             temp_id = ''temp-'' @ show_nat ms, sub_conversation = i\<rparr>] \<and>
         prefix (tbl_messages d)
           (tbl_messages
              (store_after
                 (post_message e src d (request_of (last (opened (handleRetry m ms ts v))))) d)) \<and>
         (content m \<noteq> [] \<and> get_conversation d i \<noteq> None \<longrightarrow>
            (\<exists>p. tbl_messages
                (store_after
                   (post_message e src d (request_of (last (opened (handleRetry m ms ts v))))) d) =
              tbl_messages d @
              [\<lparr>msg_id = userMessageId e, conversation_id = i, role = User,
                 content = content m, status = Sent, error_message = None,
                 created_at = now e\<rparr>, p] \<and>
              msg_id p = assistantMessageId e \<and> role p = Assistant))"
proof -
  have view: "handleRetry m ms ts v =
      v\<lparr>messages := filter (\<lambda>x. msg_id x \<noteq> msg_id m) (messages v) @
           [\<lparr>msg_id = ''temp-'' @ show_nat ms, conversation_id = i, role = User,
             content = content m, status = Sending, error_message = None, created_at = ts\<rparr>],
        error := None, isStreaming := True, streamingContent := [],
        cleanupRef := Some \<lparr>endpoint = ''/chats/'' @ i @ ''/messages'', sent_content = content m,
             temp_id = ''temp-'' @ show_nat ms, sub_conversation = i\<rparr>,
        opened := opened v @ [\<lparr>endpoint = ''/chats/'' @ i @ ''/messages'',
             sent_content = content m, temp_id = ''temp-'' @ show_nat ms,
             sub_conversation = i\<rparr>]\<rparr>"
    using assms(1-3) by (simp add: handleRetry_def sendMessage_def Let_def)
  have req: "request_of (last (opened (handleRetry m ms ts v))) =
      \<lparr>params_id = i, body_content = JStr (content m)\<rparr>"
    by (simp add: view request_of_def)
  have kept: "prefix (tbl_messages d)
      (tbl_messages (store_after
         (post_message e src d \<lparr>params_id = i, body_content = JStr (content m)\<rparr>) d))"
    using assms(4,5) by (rule post_message_keeps_rows)
  have pair: "\<exists>p. tbl_messages (store_after
         (post_message e src d \<lparr>params_id = i, body_content = JStr (content m)\<rparr>) d) =
       tbl_messages d @
       [\<lparr>msg_id = userMessageId e, conversation_id = i, role = User,
          content = content m, status = Sent, error_message = None,
          created_at = now e\<rparr>, p] \<and>
       msg_id p = assistantMessageId e \<and> role p = Assistant"
    if "content m \<noteq> []" and "get_conversation d i \<noteq> None"
  proof -
    from that have "post_message e src d \<lparr>params_id = i, body_content = JStr (content m)\<rparr> =
        stream_effects e src d i (content m)"
      by (auto simp: post_message_def)
    with stream_appends_pair [OF assms(4,5), of src i "content m"]
    show ?thesis by simp
  qed
  from kept pair show ?thesis
    unfolding req by (simp add: view)
qed

theorem retry_sends_again_witness:
  "messages (handleRetry failed_entry 8 ''t3''
      (view_run [Send ''hello'' 7 ''t1'', StreamError ''boom''] sample_view)) =
     [\<lparr>msg_id = ''temp-8'', conversation_id = ''c1'', role = User, content = ''hello'',
        status = Sending, error_message = None, created_at = ''t3''\<rparr>] \<and>
   (\<exists>p. tbl_messages (store_after
        (post_message
           \<lparr>userMessageId = ''u2'', assistantMessageId = ''a2'', now = ''t3'',
             session_opens = True\<rparr>
           \<lparr>fragments = [''Hi''], outcome = Completes\<rparr> failed_db
           (request_of (last (opened (handleRetry failed_entry 8 ''t3''
              (view_run [Send ''hello'' 7 ''t1'', StreamError ''boom''] sample_view))))))
        failed_db) =
      tbl_messages failed_db @
        [\<lparr>msg_id = ''u2'', conversation_id = ''c1'', role = User, content = ''hello'',
           status = Sent, error_message = None, created_at = ''t3''\<rparr>, p] \<and>
      msg_id p = ''a2'' \<and> role p = Assistant)"
proof -
  let ?v = "view_run [Send ''hello'' 7 ''t1'', StreamError ''boom''] sample_view"
  let ?e = "\<lparr>userMessageId = ''u2'', assistantMessageId = ''a2'', now = ''t3'',
             session_opens = True\<rparr>"
  have h1: "cid ?v = Some ''c1''" and h3: "\<not> isStreaming ?v"
    and msgs: "messages ?v = [failed_entry]"
    by (simp_all add: failed_view) (simp_all add: sample_view_def)
  have h2: "''c1'' \<noteq> []" by simp
  have h4: "assistantMessageId ?e \<notin> msg_id ` set (tbl_messages failed_db)"
    by (simp add: failed_db_def)
  have h5: "userMessageId ?e \<noteq> assistantMessageId ?e" by simp
  have body: "content failed_entry = ''hello''"
    by (simp add: failed_entry_def)
  have there: "content failed_entry \<noteq> [] \<and> get_conversation failed_db ''c1'' \<noteq> None"
    by (simp add: body get_conversation_def failed_db_def sample_conversation_def)
  note all = retry_sends_again [OF h1 h2 h3 h4 h5, of failed_entry 8 "''t3''"
      "\<lparr>fragments = [''Hi''], outcome = Completes\<rparr>"]
  from all have "messages (handleRetry failed_entry 8 ''t3'' ?v) =
     [\<lparr>msg_id = ''temp-8'', conversation_id = ''c1'', role = User, content = ''hello'',
        status = Sending, error_message = None, created_at = ''t3''\<rparr>]"
    by (simp add: msgs body)
  moreover from all [THEN conjunct2, THEN conjunct2, THEN conjunct2, rule_format, OF there]
  have "\<exists>p. tbl_messages (store_after
        (post_message ?e \<lparr>fragments = [''Hi''], outcome = Completes\<rparr> failed_db
           (request_of (last (opened (handleRetry failed_entry 8 ''t3'' ?v)))))
        failed_db) =
      tbl_messages failed_db @
        [\<lparr>msg_id = ''u2'', conversation_id = ''c1'', role = User, content = ''hello'',
           status = Sent, error_message = None, created_at = ''t3''\<rparr>, p] \<and>
      msg_id p = ''a2'' \<and> role p = Assistant"
    by (simp add: body)
  ultimately show ?thesis by blast
qed

text \<open>
  Why the new pair needs the conversation to exist: when it has been deleted meanwhile,
  the request of the retry is answered 404 and the store stays as it was.
\<close>

lemma retry_after_conversation_deleted:
  "post_message e src (failed_db\<lparr>tbl_conversations := []\<rparr>)
     (request_of (last (opened (handleRetry failed_entry 8 ''t3''
        (view_run [Send ''hello'' 7 ''t1'', StreamError ''boom''] sample_view))))) =
     [Respond 404 (ErrorBody ''Conversation not found'')]"
proof -
  have "request_of (last (opened (handleRetry failed_entry 8 ''t3''
        (view_run [Send ''hello'' 7 ''t1'', StreamError ''boom''] sample_view)))) =
      \<lparr>params_id = ''c1'', body_content = JStr ''hello''\<rparr>"
    unfolding failed_view
    by (simp add: handleRetry_def sendMessage_def sample_view_def failed_entry_def
        request_of_def Let_def)
  then show ?thesis
    by (simp add: post_message_def get_conversation_def)
qed

text \<open>
  Claim C8, as stated, fails while a stream is in progress: the failed entry is removed
  from the view, but nothing is sent, so no new entry appears and no stream is opened.
\<close>

theorem retry_while_streaming_drops_entry:
  "messages (view_run [Send ''hello'' 7 ''t1'', StreamError ''boom'', Send ''next'' 8 ''t2'']
      sample_view) =
     [failed_entry,
      \<lparr>msg_id = ''temp-8'', conversation_id = ''c1'', role = User, content = ''next'',
        status = Sending, error_message = None, created_at = ''t2''\<rparr>] \<and>
   messages (handleRetry failed_entry 9 ''t3''
      (view_run [Send ''hello'' 7 ''t1'', StreamError ''boom'', Send ''next'' 8 ''t2'']
         sample_view)) =
     [\<lparr>msg_id = ''temp-8'', conversation_id = ''c1'', role = User, content = ''next'',
        status = Sending, error_message = None, created_at = ''t2''\<rparr>] \<and>
   opened (handleRetry failed_entry 9 ''t3''
      (view_run [Send ''hello'' 7 ''t1'', StreamError ''boom'', Send ''next'' 8 ''t2'']
         sample_view)) =
   opened (view_run [Send ''hello'' 7 ''t1'', StreamError ''boom'', Send ''next'' 8 ''t2'']
      sample_view)"
  unfolding streaming_view
  by (simp add: handleRetry_def sendMessage_def sample_view_def failed_entry_def)

end
